theory Spec2Isabelle
  imports Complex_Main "HOL-Library.Char_ord" "HOL-Library.List_Lexorder" "HOL-Library.Sublist"
    "HOL-Library.Multiset"
begin

section \<open>Data model\<close>

text \<open>
  One row of the table \<open>castings\<close> (schema of \<open>db_setup.py\<close>): the key \<open>casting\<close>
  and five further TEXT columns declared NOT NULL, and the nullable column \<open>comments\<close>.
  Text is a list of characters, each standing for the code point of its number (so the
  texts covered are those over the first 256 code points); the ordering on keys is the
  lexicographic one on the character codes, which is what SQLite's default BINARY
  collation computes on the UTF-8 encoding.
\<close>

record casting_row =
  casting :: string
  years :: string
  cid :: string
  low_power :: string
  high_power :: string
  main_caps :: string
  comments :: "string option"

text \<open>JSON values, as returned by the handlers and read back by the front end.\<close>

datatype json =
  JNull
  | JStr string
  | JInt int
  | JArr "json list"
  | JObj "(string \<times> json) list"

text \<open>
  The exceptions that can leave a handler. \<open>HTTPException\<close> carries the status code and
  the detail string; the others are Python built-ins that no \<open>except\<close> clause of the
  source catches.
\<close>

datatype exn =
  HTTPException nat string
  | UnboundLocalError
  | OverflowError
  | ZeroDivisionError
  | TypeError

section \<open>The store\<close>

text \<open>
  The SQLite database file seen by a request: the rows of the table, whether
  \<open>sqlite3.connect\<close> raises \<open>sqlite3.Error\<close> (with its message), which statements
  raise \<open>sqlite3.Error\<close> when executed (indexed by the number of statements run so far),
  the number of connections that are open, and the number of statements run.
\<close>

record db =
  table :: "casting_row list"
  connect_fault :: "string option"
  query_fault :: "nat \<Rightarrow> string option"
  open_handles :: nat
  statements :: nat

definition connect :: "db \<Rightarrow> (string + unit) \<times> db" where
  "connect d =
     (case connect_fault d of
        Some e \<Rightarrow> (Inl e, d)
      | None \<Rightarrow> (Inr (), d\<lparr>open_handles := Suc (open_handles d)\<rparr>))"

definition close :: "db \<Rightarrow> db" where
  "close d = d\<lparr>open_handles := open_handles d - 1\<rparr>"

text \<open>
  \<open>cursor.execute\<close> followed by the fetch: the statement is a function of the table's
  rows. Only SELECT statements occur in the service, so the table is not touched.
\<close>

definition execute :: "db \<Rightarrow> (casting_row list \<Rightarrow> 'a) \<Rightarrow> (string + 'a) \<times> db" where
  "execute d q =
     (let d' = d\<lparr>statements := Suc (statements d)\<rparr>
      in case query_fault d (statements d) of
           Some e \<Rightarrow> (Inl e, d')
         | None \<Rightarrow> (Inr (q (table d)), d'))"

text \<open>
  A Python \<open>int\<close> bound to a statement parameter must fit SQLite's 64-bit signed INTEGER;
  otherwise the binding raises \<open>OverflowError\<close> before the statement runs.
\<close>

definition fits_int64 :: "int \<Rightarrow> bool" where
  "fits_int64 n = (- (2 ^ 63) \<le> n \<and> n < 2 ^ 63)"

subsection \<open>The four SELECT statements\<close>

text \<open>\<open>SELECT ... WHERE casting = ?\<close> with \<open>fetchone\<close>: the first matching row, if any.\<close>

definition select_by_key :: "string \<Rightarrow> casting_row list \<Rightarrow> casting_row option" where
  "select_by_key k rows =
     (case filter (\<lambda>r. casting r = k) rows of [] \<Rightarrow> None | r # _ \<Rightarrow> Some r)"

text \<open>\<open>SELECT COUNT(*) FROM castings\<close>.\<close>

definition select_count :: "casting_row list \<Rightarrow> int" where
  "select_count rows = int (length rows)"

text \<open>
  \<open>LIMIT n OFFSET m\<close> in SQLite: a negative offset counts as zero, a negative limit
  means no upper bound.
\<close>

definition sql_limit :: "int \<Rightarrow> int \<Rightarrow> 'a list \<Rightarrow> 'a list" where
  "sql_limit n m xs =
     (let ys = drop (nat m) xs in if n < 0 then ys else take (nat n) ys)"

text \<open>\<open>SELECT casting, years, cid FROM castings ORDER BY casting LIMIT ? OFFSET ?\<close>.\<close>

definition select_page :: "int \<Rightarrow> int \<Rightarrow> casting_row list \<Rightarrow> (string \<times> string \<times> string) list" where
  "select_page n m rows =
     map (\<lambda>r. (casting r, years r, cid r)) (sql_limit n m (sort_key casting rows))"

text \<open>
  SQLite's LIKE operator without ESCAPE, on two C strings: \<open>%\<close> matches any run of
  characters, \<open>_\<close> matches exactly one character, every other character matches itself,
  upper and lower case of the 26 ASCII letters being the same.
\<close>

definition ascii_fold :: "char \<Rightarrow> char" where
  "ascii_fold c =
     (case map_of (zip ''ABCDEFGHIJKLMNOPQRSTUVWXYZ'' ''abcdefghijklmnopqrstuvwxyz'') c of
        Some l \<Rightarrow> l
      | None \<Rightarrow> c)"

fun like_match :: "string \<Rightarrow> string \<Rightarrow> bool" where
  "like_match [] [] = True"
| "like_match [] (c # s) = False"
| "like_match (p # ps) [] = (p = CHR ''%'' \<and> like_match ps [])"
| "like_match (p # ps) (c # s) =
     (if p = CHR ''%'' then like_match ps (c # s) \<or> like_match (p # ps) s
      else (p = CHR ''_'' \<or> ascii_fold p = ascii_fold c) \<and> like_match ps s)"

text \<open>
  The operator reads the pattern and the text up to their first NUL character: what
  follows a NUL in either of them takes no part in the match.
\<close>

definition c_string :: "string \<Rightarrow> string" where
  "c_string s = takeWhile (\<lambda>c. c \<noteq> CHR 0x00) s"

definition like :: "string \<Rightarrow> string \<Rightarrow> bool" where
  "like pat s = like_match (c_string pat) (c_string s)"

text \<open>A NULL operand makes LIKE yield NULL, which does not select the row.\<close>

definition like_null :: "string \<Rightarrow> string option \<Rightarrow> bool" where
  "like_null pat v = (case v of None \<Rightarrow> False | Some s \<Rightarrow> like pat s)"

text \<open>
  The WHERE clause of the search:
  \<open>casting LIKE ? OR cid LIKE ? OR years LIKE ? OR comments LIKE ?\<close>, the same pattern
  bound four times.
\<close>

definition like_row :: "string \<Rightarrow> casting_row \<Rightarrow> bool" where
  "like_row pat r =
     (like pat (casting r) \<or> like pat (cid r) \<or> like pat (years r)
      \<or> like_null pat (comments r))"

text \<open>
  The length in bytes of the UTF-8 encoding: one byte below code point 128, two bytes
  from 128 to 255.
\<close>

definition utf8_length :: "string \<Rightarrow> nat" where
  "utf8_length s = sum_list (map (\<lambda>c. if digit7 c then 2 else 1) s)"

text \<open>
  \<open>SELECT ... WHERE ... ORDER BY casting\<close>. Evaluating LIKE on a pattern of more than
  50000 bytes raises \<open>sqlite3.OperationalError\<close> (\<open>Inl\<close> with its message); that
  happens at the first row, so not on an empty table.
\<close>

definition select_like :: "string \<Rightarrow> casting_row list \<Rightarrow> string + casting_row list" where
  "select_like pat rows =
     (if rows \<noteq> [] \<and> 50000 < utf8_length pat
      then Inl ''LIKE or GLOB pattern too complex''
      else Inr (sort_key casting (filter (like_row pat) rows)))"

section \<open>Data Service (main.py)\<close>

definition json_text :: "string option \<Rightarrow> json" where
  "json_text v = (case v of None \<Rightarrow> JNull | Some s \<Rightarrow> JStr s)"

text \<open>The dictionary built from a full row by \<open>lookup_casting\<close> and \<open>search_castings\<close>.\<close>

definition row_json :: "casting_row \<Rightarrow> json" where
  "row_json r =
     JObj [(''casting'', JStr (casting r)),
           (''years'', JStr (years r)),
           (''cid'', JStr (cid r)),
           (''low_power'', JStr (low_power r)),
           (''high_power'', JStr (high_power r)),
           (''main_caps'', JStr (main_caps r)),
           (''comments'', json_text (comments r))]"

text \<open>The dictionary built from a projected row by \<open>get_castings\<close>.\<close>

definition summary_json :: "string \<times> string \<times> string \<Rightarrow> json" where
  "summary_json t =
     (case t of (c, y, i) \<Rightarrow>
        JObj [(''casting'', JStr c), (''years'', JStr y), (''cid'', JStr i)])"

definition database_error :: "string \<Rightarrow> exn" where
  "database_error e = HTTPException 500 (''Database error: '' @ e)"

text \<open>
  \<open>lookup_casting\<close>. The \<open>try\<close> block connects and runs the query; \<open>except sqlite3.Error\<close>
  raises the 500; \<open>finally\<close> runs \<open>conn.close()\<close>. When \<open>sqlite3.connect\<close> itself raised,
  \<open>conn\<close> was never assigned, so the \<open>finally\<close> clause raises \<open>UnboundLocalError\<close>, which
  replaces the \<open>HTTPException\<close> in flight.
\<close>

definition lookup_casting :: "db \<Rightarrow> string \<Rightarrow> (exn + json) \<times> db" where
  "lookup_casting d key =
     (case connect d of
        (Inl e, d1) \<Rightarrow> (Inl UnboundLocalError, d1)
      | (Inr _, d1) \<Rightarrow>
          (case execute d1 (select_by_key key) of
             (Inl e, d2) \<Rightarrow> (Inl (database_error e), close d2)
           | (Inr row, d2) \<Rightarrow>
               (case row of
                  Some r \<Rightarrow> (Inr (row_json r), close d2)
                | None \<Rightarrow> (Inl (HTTPException 404 ''Casting not found''), close d2))))"

text \<open>
  \<open>get_castings\<close>, the body of the handler on the integers it is given. The division by
  \<open>limit\<close> is Python's floor division and raises on zero.
\<close>

definition get_castings :: "db \<Rightarrow> int \<Rightarrow> int \<Rightarrow> (exn + json) \<times> db" where
  "get_castings d page limit =
     (case connect d of
        (Inl e, d1) \<Rightarrow> (Inl UnboundLocalError, d1)
      | (Inr _, d1) \<Rightarrow>
          (case execute d1 select_count of
             (Inl e, d2) \<Rightarrow> (Inl (database_error e), close d2)
           | (Inr tot, d2) \<Rightarrow>
               (let offset = (page - 1) * limit in
                if \<not> (fits_int64 limit \<and> fits_int64 offset)
                then (Inl OverflowError, close d2)
                else
                  (case execute d2 (select_page limit offset) of
                     (Inl e, d3) \<Rightarrow> (Inl (database_error e), close d3)
                   | (Inr rows, d3) \<Rightarrow>
                       (if limit = 0 then (Inl ZeroDivisionError, close d3)
                        else
                          (Inr (JObj [(''castings'', JArr (map summary_json rows)),
                                      (''total'', JInt tot),
                                      (''page'', JInt page),
                                      (''limit'', JInt limit),
                                      (''total_pages'', JInt ((tot + limit - 1) div limit))]),
                           close d3))))))"

text \<open>\<open>search_castings\<close>, the body of the handler on the string it is given.\<close>

definition search_castings :: "db \<Rightarrow> string \<Rightarrow> (exn + json) \<times> db" where
  "search_castings d q =
     (case connect d of
        (Inl e, d1) \<Rightarrow> (Inl UnboundLocalError, d1)
      | (Inr _, d1) \<Rightarrow>
          (let query = ''%'' @ q @ ''%'' in
           case execute d1 (select_like query) of
             (Inl e, d2) \<Rightarrow> (Inl (database_error e), close d2)
           | (Inr (Inl e), d2) \<Rightarrow> (Inl (database_error e), close d2)
           | (Inr (Inr rows), d2) \<Rightarrow>
               (let results = map row_json rows in
                (Inr (JObj [(''results'', JArr results),
                            (''query'', JStr q),
                            (''count'', JInt (int (length results)))]),
                 close d2))))"

subsection \<open>The routes, with the parameter validation declared in the signatures\<close>

text \<open>
  A query parameter as the framework sees it: not given, given but not of the declared
  type, or given with a value of that type.
\<close>

datatype 'a param = Absent | Malformed | Given 'a

text \<open>
  What the client receives: the handler's value (200), the status and detail of an
  \<open>HTTPException\<close> or of the router's own 404, the framework's 422 for a parameter that
  fails validation, the framework's bare 500 for any other exception, or the router's
  redirect (307) to another path.
\<close>

datatype reply =
  Success json
  | HttpError nat string
  | ValidationError
  | InternalServerError exn
  | Redirect string

definition respond :: "(exn + json) \<times> db \<Rightarrow> reply \<times> db" where
  "respond r =
     (case r of
        (Inr v, d) \<Rightarrow> (Success v, d)
      | (Inl (HTTPException s m), d) \<Rightarrow> (HttpError s m, d)
      | (Inl e, d) \<Rightarrow> (InternalServerError e, d))"

text \<open>
  \<open>GET /lookup/{casting}\<close>, applied to what follows \<open>/lookup/\<close> in the decoded request
  path. The path parameter matches one non-empty segment without a slash, which is then
  the handler's argument. A path that matches no route and ends in slashes is redirected to
  the path without them when that one matches; any other path that matches no route gets
  the router's 404. In neither case does the handler run.
\<close>

definition routable :: "string \<Rightarrow> bool" where
  "routable seg = (seg \<noteq> [] \<and> CHR ''/'' \<notin> set seg)"

definition rstrip_slashes :: "string \<Rightarrow> string" where
  "rstrip_slashes s = rev (dropWhile (\<lambda>c. c = CHR ''/'') (rev s))"

definition lookup_route :: "db \<Rightarrow> string \<Rightarrow> reply \<times> db" where
  "lookup_route d rest =
     (if routable rest then respond (lookup_casting d rest)
      else if routable (rstrip_slashes rest)
      then (Redirect (''/lookup/'' @ rstrip_slashes rest), d)
      else (HttpError 404 ''Not Found'', d))"

text \<open>
  \<open>GET /castings\<close> with \<open>page: int = Query(1, ge=1)\<close> and
  \<open>limit: int = Query(50, ge=1, le=100)\<close>. The handler runs only when both parameters
  pass.
\<close>

definition page_param :: "int param \<Rightarrow> int option" where
  "page_param p =
     (case p of
        Absent \<Rightarrow> Some 1
      | Malformed \<Rightarrow> None
      | Given v \<Rightarrow> if 1 \<le> v then Some v else None)"

definition limit_param :: "int param \<Rightarrow> int option" where
  "limit_param p =
     (case p of
        Absent \<Rightarrow> Some 50
      | Malformed \<Rightarrow> None
      | Given v \<Rightarrow> if 1 \<le> v \<and> v \<le> 100 then Some v else None)"

definition castings_route :: "db \<Rightarrow> int param \<Rightarrow> int param \<Rightarrow> reply \<times> db" where
  "castings_route d p l =
     (case (page_param p, limit_param l) of
        (Some page, Some limit) \<Rightarrow> respond (get_castings d page limit)
      | _ \<Rightarrow> (ValidationError, d))"

text \<open>\<open>GET /search\<close> with \<open>q: str = Query(..., min_length=1)\<close>: required, not empty.\<close>

definition q_param :: "string param \<Rightarrow> string option" where
  "q_param p =
     (case p of
        Absent \<Rightarrow> None
      | Malformed \<Rightarrow> None
      | Given s \<Rightarrow> if 1 \<le> length s then Some s else None)"

definition search_route :: "db \<Rightarrow> string param \<Rightarrow> reply \<times> db" where
  "search_route d p =
     (case q_param p of
        Some q \<Rightarrow> respond (search_castings d q)
      | None \<Rightarrow> (ValidationError, d))"

section \<open>Presentation Layer (web_app.py)\<close>

text \<open>
  The Data Service as the front end reaches it: \<open>requests.get(url, timeout=...)\<close> either
  raises a \<open>RequestException\<close> (connection refused, timeout; \<open>Inl\<close> with the text of
  \<open>str(e)\<close>) or returns a response with a status code and a body. \<open>response.json()\<close>
  yields the parsed value, or raises the library's \<open>JSONDecodeError\<close>, which is a
  \<open>RequestException\<close> too (\<open>Inl\<close> with its text). A \<open>JObj\<close> read from a response
  stands for a Python dict, so its keys are distinct.
\<close>

record api_response =
  status_code :: nat
  body :: "string + json"

type_synonym api = "string \<Rightarrow> string + api_response"

datatype http_method = GET | POST

text \<open>
  What a view function produces: a rendered template with its context variables (status
  200), the JSON download of \<open>export\<close> with its two headers, a plain text with a status
  code, or an exception that no clause catches.
\<close>

datatype view =
  Rendered string "(string \<times> json) list"
  | Download json string string
  | PlainText string nat
  | Crash exn

text \<open>Decimal text of a number, as an f-string prints it.\<close>

fun str_nat :: "nat \<Rightarrow> string" where
  "str_nat n = (if n < 10 then [''0123456789'' ! n] else str_nat (n div 10) @ [''0123456789'' ! (n mod 10)])"

declare str_nat.simps [simp del]

definition str_int :: "int \<Rightarrow> string" where
  "str_int i = (if i < 0 then CHR ''-'' # str_nat (nat (- i)) else str_nat (nat i))"

text \<open>
  \<open>str.strip()\<close>: the characters Python's \<open>str\<close> counts as whitespace, among the first
  256 code points.
\<close>

definition py_isspace :: "char \<Rightarrow> bool" where
  "py_isspace c =
     (c \<in> set [CHR 0x09, CHR 0x0A, CHR 0x0B, CHR 0x0C, CHR 0x0D, CHR 0x1C, CHR 0x1D,
                CHR 0x1E, CHR 0x1F, CHR 0x20, CHR 0x85, CHR 0xA0])"

definition strip :: "string \<Rightarrow> string" where
  "strip s = rev (dropWhile py_isspace (rev (dropWhile py_isspace s)))"

text \<open>
  \<open>int(s)\<close> on a string. The whitespace dropped around the number is tab to carriage
  return, space, and the two whitespace characters above 127 (U+0085, U+00A0); the
  separators U+001C to U+001F, which \<open>strip\<close> drops, are not accepted here. Then one
  sign is allowed, then decimal digits, single underscores allowed between digits. A
  number of more than 4300 digits is refused. \<open>None\<close> is \<open>ValueError\<close>.
\<close>

definition int_isspace :: "char \<Rightarrow> bool" where
  "int_isspace c =
     (c \<in> set [CHR 0x09, CHR 0x0A, CHR 0x0B, CHR 0x0C, CHR 0x0D, CHR 0x20, CHR 0x85, CHR 0xA0])"

definition int_strip :: "string \<Rightarrow> string" where
  "int_strip s = rev (dropWhile int_isspace (rev (dropWhile int_isspace s)))"

definition digit_of :: "char \<Rightarrow> nat option" where
  "digit_of c = map_of (zip ''0123456789'' [0, 1, 2, 3, 4, 5, 6, 7, 8, 9]) c"

fun py_digits_acc :: "nat \<Rightarrow> string \<Rightarrow> nat option" where
  "py_digits_acc a [] = Some a"
| "py_digits_acc a [c] =
     (case digit_of c of Some v \<Rightarrow> Some (10 * a + v) | None \<Rightarrow> None)"
| "py_digits_acc a (c # d # cs) =
     (case digit_of c of
        Some v \<Rightarrow> py_digits_acc (10 * a + v) (d # cs)
      | None \<Rightarrow>
          if c = CHR ''_'' then
            (case digit_of d of Some w \<Rightarrow> py_digits_acc (10 * a + w) cs | None \<Rightarrow> None)
          else None)"

definition py_digits :: "string \<Rightarrow> nat option" where
  "py_digits s =
     (case s of
        [] \<Rightarrow> None
      | c # cs \<Rightarrow> (case digit_of c of Some v \<Rightarrow> py_digits_acc v cs | None \<Rightarrow> None))"

definition digit_count :: "string \<Rightarrow> nat" where
  "digit_count s = length (filter (\<lambda>c. digit_of c \<noteq> None) s)"

definition py_int :: "string \<Rightarrow> int option" where
  "py_int s =
     (case int_strip s of
        [] \<Rightarrow> None
      | c # cs \<Rightarrow>
          (let ds = (if c = CHR ''-'' \<or> c = CHR ''+'' then cs else c # cs) in
           if 4300 < digit_count ds then None
           else (case py_digits ds of
                   None \<Rightarrow> None
                 | Some n \<Rightarrow> Some (if c = CHR ''-'' then - int n else int n))))"

text \<open>
  \<open>render_template(name, k1=v1, ..., **data)\<close>: \<open>data\<close> must be a dict, and none of its keys
  may repeat the template parameter or an explicit keyword; otherwise the call raises
  \<open>TypeError\<close>.
\<close>

definition render_template :: "string \<Rightarrow> (string \<times> json) list \<Rightarrow> view" where
  "render_template name kw = Rendered name kw"

definition render_template_splat :: "string \<Rightarrow> (string \<times> json) list \<Rightarrow> json \<Rightarrow> view" where
  "render_template_splat name kw data =
     (case data of
        JObj kvs \<Rightarrow>
          if list_ex (\<lambda>k. k \<in> set (''template_name_or_list'' # map fst kw)) (map fst kvs)
          then Crash TypeError
          else Rendered name (kw @ kvs)
      | _ \<Rightarrow> Crash TypeError)"

definition api_error :: "api_response \<Rightarrow> string" where
  "api_error response = ''API Error: '' @ str_nat (status_code response)"

definition unable_to_connect :: "string \<Rightarrow> string" where
  "unable_to_connect e = ''Unable to connect to API: '' @ e"

text \<open>
  The inner \<open>try\<close> of \<open>index\<close>: the \<open>detail\<close> member of the error body when the body is a
  dict that has one, else the default text; also the default text when the body is not
  JSON or not a dict (the bare \<open>except\<close>).
\<close>

definition error_detail :: "api_response \<Rightarrow> json" where
  "error_detail response =
     (case body response of
        Inr (JObj kvs) \<Rightarrow>
          (case map_of kvs ''detail'' of Some v \<Rightarrow> v | None \<Rightarrow> JStr (api_error response))
      | _ \<Rightarrow> JStr (api_error response))"

subsection \<open>The root copy\<close>

text \<open>
  Each view function returns the view and the list of URLs it requested from the Data
  Service. The form field and the query argument are \<open>None\<close> when absent.
\<close>

definition index :: "api \<Rightarrow> http_method \<Rightarrow> string option \<Rightarrow> view \<times> string list" where
  "index api method form_casting =
     (if method = POST then
        (case form_casting of
           None \<Rightarrow>
             (render_template ''index.html'' [(''error'', JStr ''Please enter a casting number'')], [])
         | Some casting_id \<Rightarrow>
             if casting_id = [] then
               (render_template ''index.html'' [(''error'', JStr ''Please enter a casting number'')], [])
             else
               (let url = ''http://localhost:8000/lookup/'' @ strip casting_id in
                case api url of
                  Inl e \<Rightarrow>
                    (render_template ''index.html'' [(''error'', JStr (unable_to_connect e))], [url])
                | Inr response \<Rightarrow>
                    if status_code response = 200 then
                      (case body response of
                         Inr data \<Rightarrow> (render_template ''index.html'' [(''data'', data)], [url])
                       | Inl e \<Rightarrow>
                           (render_template ''index.html''
                              [(''error'', JStr (unable_to_connect e))], [url]))
                    else if status_code response = 404 then
                      (render_template ''index.html'' [(''error'', JStr ''Casting not found'')], [url])
                    else
                      (render_template ''index.html'' [(''error'', error_detail response)], [url])))
      else (render_template ''index.html'' [], []))"

definition browse :: "api \<Rightarrow> string option \<Rightarrow> view \<times> string list" where
  "browse api args_page =
     (let page = (case args_page of
                    None \<Rightarrow> 1
                  | Some s \<Rightarrow> (case py_int s of None \<Rightarrow> 1 | Some v \<Rightarrow> v));
          limit = 20;
          url = ''http://localhost:8000/castings?page='' @ str_int page @ ''&limit='' @ str_int limit
      in case api url of
           Inl e \<Rightarrow> (render_template ''browse.html'' [(''error'', JStr (unable_to_connect e))], [url])
         | Inr response \<Rightarrow>
             if status_code response = 200 then
               (case body response of
                  Inr data \<Rightarrow> (render_template_splat ''browse.html'' [] data, [url])
                | Inl e \<Rightarrow>
                    (render_template ''browse.html'' [(''error'', JStr (unable_to_connect e))], [url]))
             else (render_template ''browse.html'' [(''error'', JStr (api_error response))], [url]))"

definition search :: "api \<Rightarrow> http_method \<Rightarrow> string option \<Rightarrow> view \<times> string list" where
  "search api method form_query =
     (if method = POST then
        (case form_query of
           None \<Rightarrow> (render_template ''search.html'' [], [])
         | Some query \<Rightarrow>
             if query = [] then (render_template ''search.html'' [], [])
             else
               (let url = ''http://localhost:8000/search?q='' @ query in
                case api url of
                  Inl e \<Rightarrow>
                    (render_template ''search.html'' [(''error'', JStr (unable_to_connect e))], [url])
                | Inr response \<Rightarrow>
                    if status_code response = 200 then
                      (case body response of
                         Inr data \<Rightarrow>
                           (render_template_splat ''search.html'' [(''query'', JStr query)] data,
                            [url])
                       | Inl e \<Rightarrow>
                           (render_template ''search.html''
                              [(''error'', JStr (unable_to_connect e))], [url]))
                    else
                      (render_template ''search.html''
                         [(''error'', JStr (api_error response)), (''query'', JStr query)], [url])))
      else (render_template ''search.html'' [], []))"

definition export :: "api \<Rightarrow> string \<Rightarrow> view \<times> string list" where
  "export api casting_id =
     (let url = ''http://localhost:8000/lookup/'' @ casting_id in
      case api url of
        Inl e \<Rightarrow> (PlainText ''Error: Unable to fetch data'' 500, [url])
      | Inr response \<Rightarrow>
          if status_code response = 200 then
            (case body response of
               Inr data \<Rightarrow>
                 (Download data (''attachment; filename=tesla_casting_'' @ casting_id @ ''.json'')
                    ''application/json'', [url])
             | Inl e \<Rightarrow> (PlainText ''Error: Unable to fetch data'' 500, [url]))
          else (PlainText ''Error: Casting not found'' 404, [url]))"

subsection \<open>The copy under src/\<close>

definition index_src :: "api \<Rightarrow> http_method \<Rightarrow> string option \<Rightarrow> view \<times> string list" where
  "index_src api method form_casting =
     (if method = POST then
        (case form_casting of
           None \<Rightarrow>
             (render_template ''index.html'' [(''error'', JStr ''Please enter a casting number'')], [])
         | Some casting_id \<Rightarrow>
             if casting_id = [] then
               (render_template ''index.html'' [(''error'', JStr ''Please enter a casting number'')], [])
             else
               (let url = ''http://localhost:8000/lookup/'' @ strip casting_id in
                case api url of
                  Inl e \<Rightarrow>
                    (render_template ''index.html'' [(''error'', JStr (unable_to_connect e))], [url])
                | Inr response \<Rightarrow>
                    if status_code response = 200 then
                      (case body response of
                         Inr data \<Rightarrow> (render_template ''index.html'' [(''data'', data)], [url])
                       | Inl e \<Rightarrow>
                           (render_template ''index.html''
                              [(''error'', JStr (unable_to_connect e))], [url]))
                    else if status_code response = 404 then
                      (render_template ''index.html'' [(''error'', JStr ''Casting not found'')], [url])
                    else
                      (render_template ''index.html'' [(''error'', error_detail response)], [url])))
      else (render_template ''index.html'' [], []))"

definition browse_src :: "api \<Rightarrow> string option \<Rightarrow> view \<times> string list" where
  "browse_src api args_page =
     (let page = (case args_page of
                    None \<Rightarrow> 1
                  | Some s \<Rightarrow> (case py_int s of None \<Rightarrow> 1 | Some v \<Rightarrow> v));
          limit = 20;
          url = ''http://localhost:8000/castings?page='' @ str_int page @ ''&limit='' @ str_int limit
      in case api url of
           Inl e \<Rightarrow> (render_template ''browse.html'' [(''error'', JStr (unable_to_connect e))], [url])
         | Inr response \<Rightarrow>
             if status_code response = 200 then
               (case body response of
                  Inr data \<Rightarrow> (render_template_splat ''browse.html'' [] data, [url])
                | Inl e \<Rightarrow>
                    (render_template ''browse.html'' [(''error'', JStr (unable_to_connect e))], [url]))
             else (render_template ''browse.html'' [(''error'', JStr (api_error response))], [url]))"

definition search_src :: "api \<Rightarrow> http_method \<Rightarrow> string option \<Rightarrow> view \<times> string list" where
  "search_src api method form_query =
     (if method = POST then
        (case form_query of
           None \<Rightarrow> (render_template ''search.html'' [], [])
         | Some query \<Rightarrow>
             if query = [] then (render_template ''search.html'' [], [])
             else
               (let url = ''http://localhost:8000/search?q='' @ query in
                case api url of
                  Inl e \<Rightarrow>
                    (render_template ''search.html''
                       [(''error'', JStr (unable_to_connect e)), (''query'', JStr query)], [url])
                | Inr response \<Rightarrow>
                    if status_code response = 200 then
                      (case body response of
                         Inr data \<Rightarrow> (render_template_splat ''search.html'' [] data, [url])
                       | Inl e \<Rightarrow>
                           (render_template ''search.html''
                              [(''error'', JStr (unable_to_connect e)), (''query'', JStr query)],
                            [url]))
                    else
                      (render_template ''search.html''
                         [(''error'', JStr (api_error response)), (''query'', JStr query)], [url])))
      else (render_template ''search.html'' [], []))"

definition export_src :: "api \<Rightarrow> string \<Rightarrow> view \<times> string list" where
  "export_src api casting_id =
     (let url = ''http://localhost:8000/lookup/'' @ casting_id in
      case api url of
        Inl e \<Rightarrow> (PlainText ''Error: Unable to fetch data'' 500, [url])
      | Inr response \<Rightarrow>
          if status_code response = 200 then
            (case body response of
               Inr data \<Rightarrow>
                 (Download data (''attachment; filename=tesla_casting_'' @ casting_id @ ''.json'')
                    ''application/json'', [url])
             | Inl e \<Rightarrow> (PlainText ''Error: Unable to fetch data'' 500, [url]))
          else (PlainText ''Error: Casting not found'' 404, [url]))"

section \<open>Notions used in the statements\<close>

text \<open>The store answers: connecting succeeds and no statement raises.\<close>

definition healthy :: "db \<Rightarrow> bool" where
  "healthy d = (connect_fault d = None \<and> (\<forall>n. query_fault d n = None))"

text \<open>
  The search criterion in the specification's words: the query appears in the text as a
  contiguous substring at any position, upper and lower case of letters not distinguished.
  An absent (NULL) text contains nothing. Two readings of ``case-insensitive'' are written
  down: all letters among the first 256 code points (\<open>letter_fold\<close>: A to Z and the
  accented capitals U+00C0 to U+00DE), and the 26 ASCII letters only (\<open>ascii_fold\<close>).
\<close>

definition letter_fold :: "char \<Rightarrow> char" where
  "letter_fold c =
     (case map_of
        (zip (''ABCDEFGHIJKLMNOPQRSTUVWXYZ''
              @ [CHR 0xC0, CHR 0xC1, CHR 0xC2, CHR 0xC3, CHR 0xC4, CHR 0xC5, CHR 0xC6, CHR 0xC7,
                 CHR 0xC8, CHR 0xC9, CHR 0xCA, CHR 0xCB, CHR 0xCC, CHR 0xCD, CHR 0xCE, CHR 0xCF,
                 CHR 0xD0, CHR 0xD1, CHR 0xD2, CHR 0xD3, CHR 0xD4, CHR 0xD5, CHR 0xD6,
                 CHR 0xD8, CHR 0xD9, CHR 0xDA, CHR 0xDB, CHR 0xDC, CHR 0xDD, CHR 0xDE])
             (''abcdefghijklmnopqrstuvwxyz''
              @ [CHR 0xE0, CHR 0xE1, CHR 0xE2, CHR 0xE3, CHR 0xE4, CHR 0xE5, CHR 0xE6, CHR 0xE7,
                 CHR 0xE8, CHR 0xE9, CHR 0xEA, CHR 0xEB, CHR 0xEC, CHR 0xED, CHR 0xEE, CHR 0xEF,
                 CHR 0xF0, CHR 0xF1, CHR 0xF2, CHR 0xF3, CHR 0xF4, CHR 0xF5, CHR 0xF6,
                 CHR 0xF8, CHR 0xF9, CHR 0xFA, CHR 0xFB, CHR 0xFC, CHR 0xFD, CHR 0xFE])) c of
        Some l \<Rightarrow> l
      | None \<Rightarrow> c)"

definition appears_ci :: "string \<Rightarrow> string \<Rightarrow> bool" where
  "appears_ci q s = sublist (map letter_fold q) (map letter_fold s)"

definition claimed_match :: "string \<Rightarrow> casting_row \<Rightarrow> bool" where
  "claimed_match q r =
     (appears_ci q (casting r) \<or> appears_ci q (years r) \<or> appears_ci q (cid r)
      \<or> (case comments r of None \<Rightarrow> False | Some s \<Rightarrow> appears_ci q s))"

definition appears_in :: "string \<Rightarrow> string \<Rightarrow> bool" where
  "appears_in q s = sublist (map ascii_fold q) (map ascii_fold s)"

definition appears_in_null :: "string \<Rightarrow> string option \<Rightarrow> bool" where
  "appears_in_null q v = (case v of None \<Rightarrow> False | Some s \<Rightarrow> appears_in q s)"

definition spec_match :: "string \<Rightarrow> casting_row \<Rightarrow> bool" where
  "spec_match q r =
     (appears_in q (casting r) \<or> appears_in q (years r) \<or> appears_in q (cid r)
      \<or> appears_in_null q (comments r))"

text \<open>Texts without a NUL character, and rows whose four searched fields are such.\<close>

definition nul_free :: "string \<Rightarrow> bool" where
  "nul_free s = (CHR 0x00 \<notin> set s)"

definition nul_free_row :: "casting_row \<Rightarrow> bool" where
  "nul_free_row r =
     (nul_free (casting r) \<and> nul_free (years r) \<and> nul_free (cid r)
      \<and> (case comments r of None \<Rightarrow> True | Some s \<Rightarrow> nul_free s))"

text \<open>The \<open>castings\<close> member of a successful listing reply; empty for any other reply.\<close>

definition castings_of :: "reply \<Rightarrow> json list" where
  "castings_of r =
     (case r of
        Success (JObj kvs) \<Rightarrow>
          (case map_of kvs ''castings'' of Some (JArr items) \<Rightarrow> items | _ \<Rightarrow> [])
      | _ \<Rightarrow> [])"

text \<open>The projection of the listing, as a function of the row.\<close>

definition summary :: "casting_row \<Rightarrow> json" where
  "summary r =
     JObj [(''casting'', JStr (casting r)), (''years'', JStr (years r)), (''cid'', JStr (cid r))]"

text \<open>Stores used as concrete inputs.\<close>

definition row1 :: casting_row where
  "row1 = \<lparr>casting = ''1050123'', years = ''2012-2015'', cid = ''ABC'', low_power = ''150kW'',
           high_power = ''310kW'', main_caps = ''Al'', comments = Some []\<rparr>"

definition row2 :: casting_row where
  "row2 = \<lparr>casting = ''1007682'', years = ''2016-2020'', cid = ''rear'', low_power = ''193kW'',
           high_power = ''375kW'', main_caps = ''Fe'', comments = None\<rparr>"

definition row3 :: casting_row where
  "row3 = \<lparr>casting = ''1120990'', years = ''2017-2023'', cid = ''Front Unit'', low_power = ''147kW'',
           high_power = ''158kW'', main_caps = ''Al'', comments = Some ''early build''\<rparr>"

definition store3 :: db where
  "store3 = \<lparr>table = [row1, row2, row3], connect_fault = None, query_fault = (\<lambda>n. None),
             open_handles = 0, statements = 0\<rparr>"

text \<open>A store whose one key holds a slash, and one whose row holds an accented capital.\<close>

definition row_slash :: casting_row where
  "row_slash = \<lparr>casting = ''A/B'', years = ''2021'', cid = ''X'', low_power = ''1kW'',
                high_power = ''2kW'', main_caps = ''Al'', comments = None\<rparr>"

definition store_slash :: db where
  "store_slash = \<lparr>table = [row_slash], connect_fault = None, query_fault = (\<lambda>n. None),
                  open_handles = 0, statements = 0\<rparr>"

definition row_accent :: casting_row where
  "row_accent = \<lparr>casting = ''2000001'', years = ''2021'', cid = [CHR 0xC9], low_power = ''1kW'',
                 high_power = ''2kW'', main_caps = ''Al'', comments = None\<rparr>"

definition store_accent :: db where
  "store_accent = \<lparr>table = [row_accent], connect_fault = None, query_fault = (\<lambda>n. None),
                   open_handles = 0, statements = 0\<rparr>"

text \<open>A store whose row holds a NUL inside its cid.\<close>

definition row_nul :: casting_row where
  "row_nul = \<lparr>casting = ''3000001'', years = ''2021'',
              cid = [CHR ''x'', CHR 0x00, CHR ''c'', CHR ''d''],
              low_power = ''1kW'', high_power = ''2kW'', main_caps = ''Al'', comments = None\<rparr>"

definition store_nul :: db where
  "store_nul = \<lparr>table = [row_nul], connect_fault = None, query_fault = (\<lambda>n. None),
                open_handles = 0, statements = 0\<rparr>"

definition store_down :: db where
  "store_down = store3\<lparr>connect_fault := Some ''unable to open database file''\<rparr>"

text \<open>Data Service behaviours used as concrete inputs of the front end.\<close>

definition api_down :: api where
  "api_down url = Inl ''Connection refused''"

definition api_store_error :: api where
  "api_store_error url =
     Inr \<lparr>status_code = 500,
          body = Inr (JObj [(''detail'', JStr ''Database error: disk I/O error'')])\<rparr>"

definition api_not_found :: api where
  "api_not_found url =
     Inr \<lparr>status_code = 404, body = Inr (JObj [(''detail'', JStr ''Not Found'')])\<rparr>"

text \<open>A Data Service that answers any search with no match, echoing the query \<open>abc\<close>.\<close>

definition api_search_ok :: api where
  "api_search_ok url =
     Inr \<lparr>status_code = 200,
          body = Inr (JObj [(''results'', JArr []), (''query'', JStr ''abc''),
                            (''count'', JInt 0)])\<rparr>"

text \<open>A Data Service that answers any lookup with the first example row.\<close>

definition api_lookup_ok :: api where
  "api_lookup_ok url = Inr \<lparr>status_code = 200, body = Inr (row_json row1)\<rparr>"

text \<open>A Data Service that answers any listing request with an empty first page.\<close>

definition api_listing_ok :: api where
  "api_listing_ok url =
     Inr \<lparr>status_code = 200,
          body = Inr (JObj [(''castings'', JArr []), (''total'', JInt 0), (''page'', JInt 1),
                            (''limit'', JInt 20), (''total_pages'', JInt 0)])\<rparr>"

section \<open>Properties of the SQL layer\<close>

lemma like_match_percent [simp]: "like_match ''%'' s"
  by (induction s) auto

lemma like_match_percent_Cons:
  "like_match (CHR ''%'' # ps) s \<longleftrightarrow> (\<exists>pre rest. s = pre @ rest \<and> like_match ps rest)"
proof (induction s)
  case Nil
  show ?case by (cases ps) auto
next
  case (Cons c s)
  show ?case
  proof
    assume "like_match (CHR ''%'' # ps) (c # s)"
    then consider "like_match ps (c # s)" | "like_match (CHR ''%'' # ps) s" by auto
    then show "\<exists>pre rest. c # s = pre @ rest \<and> like_match ps rest"
    proof cases
      case 1
      then show ?thesis by (intro exI[of _ "[]"] exI[of _ "c # s"]) simp
    next
      case 2
      with Cons obtain pre rest where "s = pre @ rest" "like_match ps rest" by auto
      then show ?thesis by (intro exI[of _ "c # pre"] exI[of _ rest]) simp
    qed
  next
    assume "\<exists>pre rest. c # s = pre @ rest \<and> like_match ps rest"
    then obtain pre rest where *: "c # s = pre @ rest" "like_match ps rest" by auto
    show "like_match (CHR ''%'' # ps) (c # s)"
    proof (cases pre)
      case Nil
      with * have "like_match ps (c # s)" by simp
      then show ?thesis by simp
    next
      case (Cons a pre')
      with * have "s = pre' @ rest" by simp
      with * Cons.IH have "like_match (CHR ''%'' # ps) s" by auto
      then show ?thesis by simp
    qed
  qed
qed

lemma like_match_literal:
  "CHR ''%'' \<notin> set q \<Longrightarrow> CHR ''_'' \<notin> set q \<Longrightarrow>
   like_match (q @ ps) s \<longleftrightarrow>
     (\<exists>mid rest. s = mid @ rest \<and> map ascii_fold mid = map ascii_fold q \<and> like_match ps rest)"
proof (induction q arbitrary: s)
  case Nil
  show ?case by simp
next
  case (Cons a q)
  show ?case
  proof (cases s)
    case Nil
    then show ?thesis using Cons.prems by auto
  next
    case (Cons c s')
    have "like_match ((a # q) @ ps) (c # s') \<longleftrightarrow> ascii_fold a = ascii_fold c \<and> like_match (q @ ps) s'"
      using Cons.prems by auto
    also have "\<dots> \<longleftrightarrow> ascii_fold a = ascii_fold c
        \<and> (\<exists>mid rest. s' = mid @ rest \<and> map ascii_fold mid = map ascii_fold q \<and> like_match ps rest)"
      using Cons.IH[of s'] Cons.prems by simp
    also have "\<dots> \<longleftrightarrow>
        (\<exists>mid rest. c # s' = mid @ rest \<and> map ascii_fold mid = map ascii_fold (a # q) \<and> like_match ps rest)"
      (is "?L \<longleftrightarrow> ?R")
    proof
      assume ?L
      then have e: "ascii_fold a = ascii_fold c" by simp
      from \<open>?L\<close> obtain mid rest
        where "s' = mid @ rest" "map ascii_fold mid = map ascii_fold q" "like_match ps rest" by blast
      with e have "c # s' = (c # mid) @ rest
          \<and> map ascii_fold (c # mid) = map ascii_fold (a # q) \<and> like_match ps rest" by simp
      then show ?R by blast
    next
      assume ?R
      then obtain mid rest
        where *: "c # s' = mid @ rest" "map ascii_fold mid = map ascii_fold (a # q)" "like_match ps rest"
        by blast
      from *(2) obtain m mid' where m: "mid = m # mid'" by (cases mid) simp_all
      from * m have "ascii_fold a = ascii_fold c" "s' = mid' @ rest"
        "map ascii_fold mid' = map ascii_fold q" by simp_all
      with *(3) show ?L by blast
    qed
    finally show ?thesis using Cons by simp
  qed
qed

lemma map_eq_append_split:
  assumes "map f s = xs @ ys"
  shows "\<exists>us vs. s = us @ vs \<and> map f us = xs \<and> map f vs = ys"
proof -
  have "map f (take (length xs) s) = take (length xs) (map f s)" by (simp add: take_map)
  moreover have "map f (drop (length xs) s) = drop (length xs) (map f s)" by (simp add: drop_map)
  ultimately have "s = take (length xs) s @ drop (length xs) s
      \<and> map f (take (length xs) s) = xs \<and> map f (drop (length xs) s) = ys"
    using assms by simp
  then show ?thesis by blast
qed

text \<open>
  With no wildcard in the query, the pattern \<open>%q%\<close> matches exactly the texts that
  contain the query, ASCII case ignored.
\<close>

lemma like_match_contains:
  assumes "CHR ''%'' \<notin> set q" "CHR ''_'' \<notin> set q"
  shows "like_match (''%'' @ q @ ''%'') s = appears_in q s"
proof -
  have "like_match (''%'' @ q @ ''%'') s
      \<longleftrightarrow> (\<exists>pre rest. s = pre @ rest \<and> like_match (q @ ''%'') rest)"
    using like_match_percent_Cons[of "q @ ''%''" s] by simp
  also have "\<dots> \<longleftrightarrow> (\<exists>pre mid post. s = pre @ mid @ post \<and> map ascii_fold mid = map ascii_fold q)"
    using like_match_literal[OF assms, of "''%''"] by auto
  also have "\<dots> \<longleftrightarrow> sublist (map ascii_fold q) (map ascii_fold s)" (is "?L \<longleftrightarrow> ?R")
  proof
    assume ?L
    then obtain pre mid post
      where "s = pre @ mid @ post" "map ascii_fold mid = map ascii_fold q" by blast
    then have "map ascii_fold s = map ascii_fold pre @ map ascii_fold q @ map ascii_fold post"
      by simp
    then show ?R unfolding sublist_def by blast
  next
    assume ?R
    then obtain ps ss where "map ascii_fold s = ps @ map ascii_fold q @ ss"
      unfolding sublist_def by blast
    then obtain pre t where t: "s = pre @ t" "map ascii_fold t = map ascii_fold q @ ss"
      using map_eq_append_split by blast
    from t(2) obtain mid post where "t = mid @ post" "map ascii_fold mid = map ascii_fold q"
      using map_eq_append_split by blast
    with t show ?L by blast
  qed
  finally show ?thesis by (simp add: appears_in_def)
qed

lemma c_string_nul_free: "nul_free s \<Longrightarrow> c_string s = s"
  by (auto simp: c_string_def nul_free_def takeWhile_eq_all_conv)

text \<open>
  The same for the operator itself, when neither the query nor the text holds a NUL.
\<close>

lemma like_contains:
  assumes "CHR ''%'' \<notin> set q" "CHR ''_'' \<notin> set q" "nul_free q" "nul_free s"
  shows "like (''%'' @ q @ ''%'') s = appears_in q s"
proof -
  have "nul_free (''%'' @ q @ ''%'')" using assms(3) by (simp add: nul_free_def)
  then have "like (''%'' @ q @ ''%'') s = like_match (''%'' @ q @ ''%'') s"
    using assms(4) by (simp only: like_def c_string_nul_free)
  then show ?thesis using like_match_contains[OF assms(1,2)] by simp
qed

text \<open>A pattern that ends at a NUL right after the leading \<open>%\<close> matches every text.\<close>

lemma like_percent_nul: "like (CHR ''%'' # CHR 0x00 # rest) s"
  by (simp add: like_def c_string_def)

lemma select_by_key_present:
  "distinct (map casting rows) \<Longrightarrow> r \<in> set rows \<Longrightarrow> select_by_key (casting r) rows = Some r"
proof (induction rows)
  case Nil
  then show ?case by simp
next
  case (Cons x rows)
  show ?case
  proof (cases "casting x = casting r")
    case True
    with Cons.prems have "x = r" by (auto simp: image_iff)
    then show ?thesis by (simp add: select_by_key_def)
  next
    case False
    with Cons have "select_by_key (casting r) rows = Some r" by auto
    with False show ?thesis by (simp add: select_by_key_def)
  qed
qed

lemma select_by_key_absent:
  "k \<notin> casting ` set rows \<Longrightarrow> select_by_key k rows = None"
  by (induction rows) (auto simp: select_by_key_def)

lemma healthy_store3: "healthy store3"
  by (simp add: healthy_def store3_def)

section \<open>Data Service: lookup\<close>

lemma lookup_casting_healthy:
  "healthy d \<Longrightarrow> fst (lookup_casting d k) =
     (case select_by_key k (table d) of
        Some r \<Rightarrow> Inr (row_json r)
      | None \<Rightarrow> Inl (HTTPException 404 ''Casting not found''))"
  by (simp add: healthy_def lookup_casting_def connect_def execute_def Let_def
      split: option.splits)

text \<open>
  Claim C3, amended. When the store answers and keys are unique (the table's primary key),
  the lookup route returns, for the key of any stored row that can be a path segment (not
  empty, no slash), the object holding exactly that row's seven field values (a NULL
  comment as JSON null); for any such key that is not in the table it answers 404
  ``Casting not found''; and for no key that is absent from the table does it return a
  record.
\<close>

theorem lookup_returns_stored_record:
  assumes "healthy d" and "distinct (map casting (table d))"
  shows "(\<forall>r \<in> set (table d). routable (casting r) \<longrightarrow>
            fst (lookup_route d (casting r)) =
              Success (JObj [(''casting'', JStr (casting r)), (''years'', JStr (years r)),
                             (''cid'', JStr (cid r)), (''low_power'', JStr (low_power r)),
                             (''high_power'', JStr (high_power r)),
                             (''main_caps'', JStr (main_caps r)),
                             (''comments'', (case comments r of None \<Rightarrow> JNull | Some c \<Rightarrow> JStr c))]))
       \<and> (\<forall>k. routable k \<and> k \<notin> casting ` set (table d) \<longrightarrow>
            fst (lookup_route d k) = HttpError 404 ''Casting not found'')
       \<and> (\<forall>k v. k \<notin> casting ` set (table d) \<longrightarrow> fst (lookup_route d k) \<noteq> Success v)"
proof (intro conjI ballI allI impI)
  fix r
  assume "r \<in> set (table d)" and rt: "routable (casting r)"
  with assms(2) have "select_by_key (casting r) (table d) = Some r"
    by (intro select_by_key_present)
  then have "fst (lookup_casting d (casting r)) = Inr (row_json r)"
    using lookup_casting_healthy[OF assms(1)] by simp
  with rt show "fst (lookup_route d (casting r)) =
              Success (JObj [(''casting'', JStr (casting r)), (''years'', JStr (years r)),
                             (''cid'', JStr (cid r)), (''low_power'', JStr (low_power r)),
                             (''high_power'', JStr (high_power r)),
                             (''main_caps'', JStr (main_caps r)),
                             (''comments'', (case comments r of None \<Rightarrow> JNull | Some c \<Rightarrow> JStr c))])"
    by (cases "lookup_casting d (casting r)")
      (simp add: lookup_route_def respond_def row_json_def json_text_def)
next
  fix k
  assume "routable k \<and> k \<notin> casting ` set (table d)"
  then have rt: "routable k" and "select_by_key k (table d) = None"
    by (simp_all add: select_by_key_absent)
  then have "fst (lookup_casting d k) = Inl (HTTPException 404 ''Casting not found'')"
    using lookup_casting_healthy[OF assms(1)] by simp
  with rt show "fst (lookup_route d k) = HttpError 404 ''Casting not found''"
    by (cases "lookup_casting d k") (simp add: lookup_route_def respond_def)
next
  fix k v
  assume "k \<notin> casting ` set (table d)"
  then have "select_by_key k (table d) = None" by (rule select_by_key_absent)
  then have "fst (lookup_casting d k) = Inl (HTTPException 404 ''Casting not found'')"
    using lookup_casting_healthy[OF assms(1)] by simp
  then show "fst (lookup_route d k) \<noteq> Success v"
    by (cases "lookup_casting d k") (simp add: lookup_route_def respond_def)
qed

theorem lookup_returns_stored_record_witness:
  "fst (lookup_route store3 ''1050123'') =
     Success (JObj [(''casting'', JStr ''1050123''), (''years'', JStr ''2012-2015''),
                    (''cid'', JStr ''ABC''), (''low_power'', JStr ''150kW''),
                    (''high_power'', JStr ''310kW''), (''main_caps'', JStr ''Al''),
                    (''comments'', JStr [])])
   \<and> fst (lookup_route store3 ''9999999'') = HttpError 404 ''Casting not found''"
proof -
  have h: "healthy store3" by (simp add: healthy_def store3_def)
  have k: "distinct (map casting (table store3))"
    by (simp add: store3_def row1_def row2_def row3_def)
  have m: "row1 \<in> set (table store3)" by (simp add: store3_def)
  have r: "routable (casting row1)" "routable ''9999999''"
    by (simp_all add: routable_def row1_def)
  have a: "''9999999'' \<notin> casting ` set (table store3)"
    by (simp add: store3_def row1_def row2_def row3_def)
  from lookup_returns_stored_record[OF h k] m a r show ?thesis
    by (auto simp: row1_def)
qed

text \<open>
  Claim C3 as stated covers every key present in the store. A stored key that holds a
  slash is not one path segment: the request for it matches no route, and the answer is
  the router's 404 although the record is there.
\<close>

theorem lookup_slash_key_counterexample:
  "row_slash \<in> set (table store_slash)
   \<and> fst (lookup_route store_slash (casting row_slash)) = HttpError 404 ''Not Found''"
  by (simp add: store_slash_def row_slash_def lookup_route_def routable_def rstrip_slashes_def)

text \<open>A path that only trailing slashes keep from matching is redirected.\<close>

lemma lookup_trailing_slash_redirect:
  "fst (lookup_route d ''1050123/'') = Redirect ''/lookup/1050123''"
  by (simp add: lookup_route_def routable_def rstrip_slashes_def)

section \<open>Data Service: the store is only read\<close>

lemma respond_db: "snd (respond r) = snd r"
  by (cases r) (auto simp: respond_def split: sum.splits exn.splits)

lemma lookup_casting_table: "table (snd (lookup_casting d k)) = table d"
  by (simp add: lookup_casting_def connect_def execute_def close_def Let_def
      split: option.splits)

lemma get_castings_table: "table (snd (get_castings d p l)) = table d"
  by (simp add: get_castings_def connect_def execute_def close_def Let_def
      split: option.splits)

lemma search_castings_table: "table (snd (search_castings d q)) = table d"
  by (simp add: search_castings_def connect_def execute_def close_def Let_def
      split: option.splits sum.splits)

text \<open>
  Claim C9. Each of the three routes leaves the rows of the table as they were, for every
  state of the store and every input, whether the request succeeds, is rejected, or fails.
\<close>

theorem service_leaves_store_unchanged:
  "table (snd (lookup_route d k)) = table d
   \<and> table (snd (castings_route d p l)) = table d
   \<and> table (snd (search_route d q)) = table d"
  by (simp add: lookup_route_def castings_route_def search_route_def respond_db
      lookup_casting_table get_castings_table search_castings_table split: option.splits)

theorem service_leaves_store_unchanged_witness:
  "table (snd (lookup_route store_down ''1050123'')) = [row1, row2, row3]
   \<and> table (snd (castings_route store3 (Given 1) (Given 2))) = [row1, row2, row3]
   \<and> table (snd (search_route store3 (Given ''ABC''))) = [row1, row2, row3]"
  using service_leaves_store_unchanged[of store_down "''1050123''" "Given 1" "Given 2" "Given ''ABC''"]
    service_leaves_store_unchanged[of store3 "''1050123''" "Given 1" "Given 2" "Given ''ABC''"]
  by (simp add: store3_def store_down_def)

section \<open>Data Service: parameter validation\<close>

text \<open>
  Claim C6. A listing request whose page is below 1, or whose limit is below 1 or above
  100, is answered with the validation error and the store is left exactly as it was: no
  connection was opened and no statement was run. The same holds for a search request
  whose query is missing or empty.
\<close>

theorem invalid_parameters_rejected_before_query:
  "(page < 1 \<longrightarrow> castings_route d (Given page) l = (ValidationError, d))
   \<and> (limit < 1 \<or> 100 < limit \<longrightarrow> castings_route d p (Given limit) = (ValidationError, d))
   \<and> search_route d Absent = (ValidationError, d)
   \<and> search_route d (Given []) = (ValidationError, d)"
  by (auto simp: castings_route_def search_route_def page_param_def limit_param_def q_param_def
      split: option.splits param.splits)

theorem invalid_parameters_rejected_before_query_witness:
  "castings_route store3 (Given 0) (Given 20) = (ValidationError, store3)
   \<and> castings_route store3 (Given 1) (Given 101) = (ValidationError, store3)
   \<and> castings_route store3 (Given 1) (Given 0) = (ValidationError, store3)
   \<and> search_route store3 (Given []) = (ValidationError, store3)"
  using invalid_parameters_rejected_before_query[of 0 store3 "Given 20" 101 "Given 1"]
    invalid_parameters_rejected_before_query[of 0 store3 "Given 20" 0 "Given 1"]
  by simp

section \<open>Data Service: connections and escaping exceptions\<close>

text \<open>
  Once a connection has been opened, every path of the three handlers closes it: the
  number of open handles after the request is the number before it.
\<close>

lemma lookup_casting_releases:
  "connect_fault d = None \<Longrightarrow> open_handles (snd (lookup_casting d k)) = open_handles d"
  by (simp add: lookup_casting_def connect_def execute_def close_def Let_def
      split: option.splits)

lemma get_castings_releases:
  "connect_fault d = None \<Longrightarrow> open_handles (snd (get_castings d p l)) = open_handles d"
  by (simp add: get_castings_def connect_def execute_def close_def Let_def
      split: option.splits)

lemma search_castings_releases:
  "connect_fault d = None \<Longrightarrow> open_handles (snd (search_castings d q)) = open_handles d"
  by (simp add: search_castings_def connect_def execute_def close_def Let_def
      split: option.splits sum.splits)

text \<open>A statement that raises \<open>sqlite3.Error\<close> becomes the 500 with its message.\<close>

lemma lookup_query_failure:
  "connect_fault d = None \<Longrightarrow> query_fault d (statements d) = Some e \<Longrightarrow> routable k \<Longrightarrow>
   fst (lookup_route d k) = HttpError 500 (''Database error: '' @ e)"
  by (simp add: lookup_route_def lookup_casting_def connect_def execute_def close_def Let_def
      respond_def database_error_def)

text \<open>
  Claim C5, at the input where it fails. When \<open>sqlite3.connect\<close> raises, none of the
  three routes answers with the 500 ``Database error'' response that its \<open>except\<close>
  clause builds: the \<open>finally\<close> clause raises \<open>UnboundLocalError\<close>, and that is what
  leaves the handler.
\<close>

theorem connect_failure_escapes:
  "fst (lookup_route store_down ''1050123'') = InternalServerError UnboundLocalError
   \<and> fst (castings_route store_down (Given 1) (Given 50)) = InternalServerError UnboundLocalError
   \<and> fst (search_route store_down (Given ''ABC'')) = InternalServerError UnboundLocalError"
  by (simp add: lookup_route_def castings_route_def search_route_def page_param_def
      limit_param_def q_param_def lookup_casting_def get_castings_def search_castings_def
      connect_def store_down_def store3_def respond_def routable_def)

section \<open>Data Service: paginated listing\<close>

lemma ceil_div:
  fixes t l :: int
  assumes "0 < l"
  shows "(t + l - 1) div l = \<lceil>real_of_int t / real_of_int l\<rceil>"
proof -
  define q where "q = (t + l - 1) div l"
  define r where "r = (t + l - 1) mod l"
  have e: "l * q + r = t + l - 1" unfolding q_def r_def by (rule mult_div_mod_eq)
  have r: "0 \<le> r" "r < l" using assms by (simp_all add: r_def)
  have a: "t \<le> q * l" using e r by (simp add: mult.commute)
  have b: "q * l - l < t" using e r by (simp add: mult.commute)
  have "real_of_int t \<le> real_of_int (q * l)" using a by (simp only: of_int_le_iff)
  then have u: "real_of_int t / real_of_int l \<le> real_of_int q"
    using assms by (simp add: pos_divide_le_eq)
  have "real_of_int (q * l - l) < real_of_int t" using b by (simp only: of_int_less_iff)
  then have "(real_of_int q - 1) * real_of_int l < real_of_int t" by (simp add: algebra_simps)
  then have lo: "real_of_int q - 1 < real_of_int t / real_of_int l"
    using assms by (simp add: pos_less_divide_eq)
  from lo u have "\<lceil>real_of_int t / real_of_int l\<rceil> = q" by (rule ceiling_unique)
  then show ?thesis by (simp add: q_def)
qed

lemma concat_slices:
  "concat (map (\<lambda>k. take n (drop (k * n) xs)) [0..<m]) = take (m * n) xs"
proof (induction m)
  case 0
  then show ?case by simp
next
  case (Suc m)
  have "concat (map (\<lambda>k. take n (drop (k * n) xs)) [0..<Suc m])
      = concat (map (\<lambda>k. take n (drop (k * n) xs)) [0..<m]) @ take n (drop (m * n) xs)"
    by simp
  also have "\<dots> = take (m * n) xs @ take n (drop (m * n) xs)" using Suc by simp
  also have "\<dots> = take (m * n + n) xs" by (simp add: take_add)
  finally show ?case by (simp add: add.commute)
qed

lemma concat_pages:
  assumes "length xs \<le> m * n"
  shows "concat (map (\<lambda>p. take n (drop ((p - 1) * n) xs)) [1..<Suc m]) = xs"
proof -
  have "[1..<Suc m] = map Suc [0..<m]" by (simp add: map_Suc_upt)
  then have "concat (map (\<lambda>p. take n (drop ((p - 1) * n) xs)) [1..<Suc m])
     = concat (map (\<lambda>k. take n (drop (k * n) xs)) [0..<m])" by (simp add: comp_def)
  also have "\<dots> = take (m * n) xs" by (rule concat_slices)
  finally show ?thesis using assms by simp
qed

lemma summary_json_proj: "summary_json (casting r, years r, cid r) = summary r"
  by (simp add: summary_json_def summary_def)

lemma get_castings_healthy:
  assumes "healthy d" "1 \<le> page" "1 \<le> limit" "limit \<le> 100" "(page - 1) * limit < 2 ^ 63"
  shows "fst (get_castings d page limit) =
     Inr (JObj [(''castings'',
                 JArr (map summary (take (nat limit) (drop (nat ((page - 1) * limit))
                                                         (sort_key casting (table d)))))),
                (''total'', JInt (int (length (table d)))),
                (''page'', JInt page),
                (''limit'', JInt limit),
                (''total_pages'', JInt ((int (length (table d)) + limit - 1) div limit))])"
proof -
  have "0 \<le> (page - 1) * limit" using assms(2,3) by simp
  with assms(5) have o: "fits_int64 ((page - 1) * limit)" by (simp add: fits_int64_def)
  have l: "fits_int64 limit" using assms(3,4) by (simp add: fits_int64_def)
  have c: "connect_fault d = None" and q: "\<And>n. query_fault d n = None"
    using assms(1) by (simp_all add: healthy_def)
  show ?thesis
    using o l c q assms(3)
    by (simp add: get_castings_def connect_def execute_def Let_def select_count_def
        select_page_def sql_limit_def comp_def summary_json_proj)
qed

lemma castings_route_healthy:
  assumes "healthy d" "1 \<le> page" "1 \<le> limit" "limit \<le> 100" "(page - 1) * limit < 2 ^ 63"
  shows "fst (castings_route d (Given page) (Given limit)) =
     Success (JObj [(''castings'',
                 JArr (map summary (take (nat limit) (drop (nat ((page - 1) * limit))
                                                         (sort_key casting (table d)))))),
                (''total'', JInt (int (length (table d)))),
                (''page'', JInt page),
                (''limit'', JInt limit),
                (''total_pages'', JInt \<lceil>real (length (table d)) / real_of_int limit\<rceil>)])"
proof -
  have "(int (length (table d)) + limit - 1) div limit = \<lceil>real_of_int (int (length (table d))) / real_of_int limit\<rceil>"
    using assms(3) by (intro ceil_div) simp
  then have t: "(int (length (table d)) + limit - 1) div limit = \<lceil>real (length (table d)) / real_of_int limit\<rceil>"
    by simp
  show ?thesis
    using get_castings_healthy[OF assms] assms(2,3,4) t
    by (cases "get_castings d page limit")
      (simp add: castings_route_def page_param_def limit_param_def respond_def)
qed

lemma castings_of_listing [simp]:
  "castings_of (Success (JObj ((''castings'', JArr items) # rest))) = items"
  by (simp add: castings_of_def)

text \<open>
  The specification's example: with 55 records and limit 20, page 3 holds the records 41
  to 55 of the ascending order, 15 of them, and there are 3 pages.
\<close>

lemma castings_example_55:
  assumes "healthy d" and "length (table d) = 55"
  shows "fst (castings_route d (Given 3) (Given 20)) =
           Success (JObj [(''castings'', JArr (map summary (drop 40 (sort_key casting (table d))))),
                          (''total'', JInt 55), (''page'', JInt 3), (''limit'', JInt 20),
                          (''total_pages'', JInt 3)])
       \<and> length (drop 40 (sort_key casting (table d))) = 15"
proof -
  have "\<lceil>real 55 / real_of_int 20\<rceil> = 3" by (simp add: ceiling_eq_iff)
  then show ?thesis
    using castings_route_healthy[OF assms(1), of 3 20] assms(2) by simp
qed

text \<open>
  Claim C1, amended. When the store answers and holds fewer than \<open>2^63\<close> rows, then for
  every limit from 1 to 100: every page \<open>page \<ge> 1\<close> whose offset \<open>(page - 1) * limit\<close>
  fits a signed 64-bit integer is answered with at most \<open>limit\<close> items, namely the
  projection to casting, years and cid of the slice at that offset of the rows in ascending
  key order, together with the row count and \<open>total_pages = \<lceil>total / limit\<rceil>\<close>; and the
  pages 1 to \<open>total_pages\<close>, concatenated in order, are the projection of all rows in
  ascending key order, which is a rearrangement of the table (nothing twice, nothing left out).
\<close>

theorem castings_pagination:
  assumes "healthy d" and "1 \<le> limit" and "limit \<le> 100" and "int (length (table d)) < 2 ^ 63"
  shows "(\<forall>page. 1 \<le> page \<and> (page - 1) * limit < 2 ^ 63 \<longrightarrow>
            fst (castings_route d (Given page) (Given limit)) =
              Success (JObj [(''castings'',
                              JArr (map summary (take (nat limit) (drop (nat ((page - 1) * limit))
                                                   (sort_key casting (table d)))))),
                             (''total'', JInt (int (length (table d)))),
                             (''page'', JInt page),
                             (''limit'', JInt limit),
                             (''total_pages'', JInt \<lceil>real (length (table d)) / real_of_int limit\<rceil>)])
            \<and> length (castings_of (fst (castings_route d (Given page) (Given limit)))) \<le> nat limit)
       \<and> concat (map (\<lambda>p. castings_of (fst (castings_route d (Given (int p)) (Given limit))))
                   [1..<Suc (nat \<lceil>real (length (table d)) / real_of_int limit\<rceil>)])
           = map summary (sort_key casting (table d))
       \<and> sorted (map casting (sort_key casting (table d)))
       \<and> mset (sort_key casting (table d)) = mset (table d)"
proof (intro conjI allI impI)
  fix page
  assume p: "1 \<le> page \<and> (page - 1) * limit < 2 ^ 63"
  then have r: "fst (castings_route d (Given page) (Given limit)) =
              Success (JObj [(''castings'',
                              JArr (map summary (take (nat limit) (drop (nat ((page - 1) * limit))
                                                   (sort_key casting (table d)))))),
                             (''total'', JInt (int (length (table d)))),
                             (''page'', JInt page),
                             (''limit'', JInt limit),
                             (''total_pages'', JInt \<lceil>real (length (table d)) / real_of_int limit\<rceil>)])"
    using castings_route_healthy[OF assms(1) _ assms(2,3)] by simp
  then show "fst (castings_route d (Given page) (Given limit)) =
              Success (JObj [(''castings'',
                              JArr (map summary (take (nat limit) (drop (nat ((page - 1) * limit))
                                                   (sort_key casting (table d)))))),
                             (''total'', JInt (int (length (table d)))),
                             (''page'', JInt page),
                             (''limit'', JInt limit),
                             (''total_pages'', JInt \<lceil>real (length (table d)) / real_of_int limit\<rceil>)])" .
  from r show "length (castings_of (fst (castings_route d (Given page) (Given limit)))) \<le> nat limit"
    by simp
next
  define n where "n = length (table d)"
  define L where "L = nat limit"
  define m where "m = nat \<lceil>real n / real_of_int limit\<rceil>"
  define full where "full = sort_key casting (table d)"
  define c where "c = \<lceil>real n / real_of_int limit\<rceil>"
  have L: "0 < L" "int L = limit" using assms(2) by (simp_all add: L_def)
  have "real_of_int (int n) \<le> real_of_int (c * limit)"
    using ceiling_divide_upper[of "real_of_int limit" "real n"] assms(2) by (simp add: c_def)
  then have A: "int n \<le> c * limit" by (simp only: of_int_le_iff)
  have "real_of_int ((c - 1) * limit) < real_of_int (int n)"
    using ceiling_divide_lower[of "real_of_int limit" "real n"] assms(2) by (simp add: c_def)
  then have B: "(c - 1) * limit < int n" by (simp only: of_int_less_iff)
  have "0 \<le> real n / real_of_int limit" using assms(2) by simp
  then have C: "0 \<le> c" unfolding c_def by linarith
  have m: "int m = c" using C by (simp add: m_def c_def)
  have "int n \<le> int (m * L)" using A m L by simp
  then have cover: "n \<le> m * L" by (simp only: of_nat_le_iff)
  have lo: "(int m - 1) * limit < int n" using B m by simp
  have page: "castings_of (fst (castings_route d (Given (int p)) (Given limit)))
      = map summary (take L (drop ((p - 1) * L) full))" if "p \<in> set [1..<Suc m]" for p
  proof -
    from that have p: "1 \<le> p" "p \<le> m" by auto
    then have "0 < m" by simp
    have "(int p - 1) * limit \<le> (int m - 1) * limit"
      using p assms(2) by (intro mult_right_mono) simp_all
    also have "\<dots> < int n" using lo .
    also have "\<dots> < 2 ^ 63" using assms(4) by (simp add: n_def)
    finally have b: "(int p - 1) * limit < 2 ^ 63" .
    have "nat ((int p - 1) * limit) = (p - 1) * L"
      using p L by (simp add: nat_mult_distrib L_def flip: of_nat_diff)
    with castings_route_healthy[OF assms(1) _ assms(2,3) b] p
    show ?thesis by (simp add: L_def full_def)
  qed
  have "concat (map (\<lambda>p. castings_of (fst (castings_route d (Given (int p)) (Given limit)))) [1..<Suc m])
      = concat (map (\<lambda>p. map summary (take L (drop ((p - 1) * L) full))) [1..<Suc m])"
    using page by (intro arg_cong[where f = concat] map_cong) simp_all
  also have "\<dots> = map summary (concat (map (\<lambda>p. take L (drop ((p - 1) * L) full)) [1..<Suc m]))"
    by (simp add: map_concat comp_def)
  also have "\<dots> = map summary full"
    using cover by (subst concat_pages) (simp_all add: full_def n_def)
  finally show "concat (map (\<lambda>p. castings_of (fst (castings_route d (Given (int p)) (Given limit))))
                   [1..<Suc (nat \<lceil>real (length (table d)) / real_of_int limit\<rceil>)])
           = map summary (sort_key casting (table d))"
    by (simp add: m_def n_def full_def)
next
  show "sorted (map casting (sort_key casting (table d)))" by simp
next
  show "mset (sort_key casting (table d)) = mset (table d)" by simp
qed

lemma sorted_store3: "sort_key casting (table store3) = [row2, row1, row3]"
  by (simp add: store3_def row1_def row2_def row3_def)

theorem castings_pagination_witness:
  "fst (castings_route store3 (Given 2) (Given 2)) =
     Success (JObj [(''castings'', JArr [summary row3]),
                    (''total'', JInt 3), (''page'', JInt 2), (''limit'', JInt 2),
                    (''total_pages'', JInt 2)])
   \<and> castings_of (fst (castings_route store3 (Given 1) (Given 2)))
       @ castings_of (fst (castings_route store3 (Given 2) (Given 2)))
     = [summary row2, summary row1, summary row3]"
proof -
  have h: "healthy store3" by (simp add: healthy_def store3_def)
  have n: "int (length (table store3)) < 2 ^ 63" by (simp add: store3_def)
  have c: "\<lceil>real (length (table store3)) / real_of_int 2\<rceil> = 2" by (simp add: store3_def)
  have u: "[1..<Suc (nat 2)] = [1, 2]" by (simp add: upt_rec)
  from castings_pagination[OF h _ _ n, of 2] sorted_store3 c u
  have "(\<forall>page. 1 \<le> page \<and> (page - 1) * 2 < 2 ^ 63 \<longrightarrow>
            fst (castings_route store3 (Given page) (Given 2)) =
              Success (JObj [(''castings'',
                              JArr (map summary (take 2 (drop (nat ((page - 1) * 2)) [row2, row1, row3])))),
                             (''total'', JInt 3), (''page'', JInt page), (''limit'', JInt 2),
                             (''total_pages'', JInt 2)]))
      \<and> castings_of (fst (castings_route store3 (Given 1) (Given 2)))
         @ castings_of (fst (castings_route store3 (Given 2) (Given 2)))
        = [summary row2, summary row1, summary row3]"
    by (simp add: store3_def)
  then show ?thesis by simp
qed

text \<open>
  Claim C1 as stated quantifies over every \<open>page \<ge> 1\<close>. A page whose offset does not fit
  SQLite's 64-bit INTEGER is not answered with a slice: binding the offset raises
  \<open>OverflowError\<close>, which no \<open>except\<close> clause catches.
\<close>

theorem castings_huge_page_counterexample:
  "fst (castings_route store3 (Given 9223372036854775809) (Given 1)) = InternalServerError OverflowError"
  by (simp add: castings_route_def page_param_def limit_param_def get_castings_def connect_def
      execute_def close_def Let_def fits_int64_def respond_def store3_def)

section \<open>Data Service: substring search\<close>

lemma like_row_spec:
  assumes "CHR ''%'' \<notin> set q" "CHR ''_'' \<notin> set q" "nul_free q" "nul_free_row r"
  shows "like_row (''%'' @ q @ ''%'') r = spec_match q r"
proof -
  have f: "nul_free (casting r)" "nul_free (years r)" "nul_free (cid r)"
    using assms(4) by (simp_all add: nul_free_row_def)
  have c: "like_null (''%'' @ q @ ''%'') (comments r) = appears_in_null q (comments r)"
  proof (cases "comments r")
    case None
    then show ?thesis by (simp add: like_null_def appears_in_null_def)
  next
    case (Some s)
    with assms(4) have "nul_free s" by (simp add: nul_free_row_def)
    with Some show ?thesis
      using like_contains[OF assms(1,2,3), of s] by (simp add: like_null_def appears_in_null_def)
  qed
  show ?thesis
    unfolding like_row_def spec_match_def c
      like_contains[OF assms(1,2,3) f(1)] like_contains[OF assms(1,2,3) f(2)]
      like_contains[OF assms(1,2,3) f(3)]
    by blast
qed

lemma search_castings_healthy:
  assumes "healthy d" and "table d = [] \<or> utf8_length (''%'' @ q @ ''%'') \<le> 50000"
  shows "fst (search_castings d q) =
     Inr (JObj [(''results'',
                 JArr (map row_json (sort_key casting (filter (like_row (''%'' @ q @ ''%'')) (table d))))),
                (''query'', JStr q),
                (''count'', JInt (int (length (filter (like_row (''%'' @ q @ ''%'')) (table d)))))])"
proof -
  have "select_like (''%'' @ q @ ''%'') (table d)
      = Inr (sort_key casting (filter (like_row (''%'' @ q @ ''%'')) (table d)))"
    using assms(2) by (auto simp: select_like_def)
  then show ?thesis
    using assms(1)
    by (simp add: healthy_def search_castings_def connect_def execute_def Let_def)
qed

lemma search_route_healthy:
  assumes "healthy d" and "q \<noteq> []"
    and "table d = [] \<or> utf8_length (''%'' @ q @ ''%'') \<le> 50000"
  shows "fst (search_route d (Given q)) =
     Success (JObj [(''results'',
                 JArr (map row_json (sort_key casting (filter (like_row (''%'' @ q @ ''%'')) (table d))))),
                (''query'', JStr q),
                (''count'', JInt (int (length (filter (like_row (''%'' @ q @ ''%'')) (table d)))))])"
proof -
  have "1 \<le> length q" using assms(2) by (cases q) simp_all
  then show ?thesis
    using search_castings_healthy[OF assms(1,3)]
    by (cases "search_castings d q") (simp add: search_route_def q_param_def respond_def)
qed

text \<open>
  On a table that is not empty, a pattern of more than 50000 bytes makes the statement
  raise, which the handler turns into its 500.
\<close>

lemma search_pattern_too_long:
  assumes "healthy d" and "table d \<noteq> []" and "50000 < utf8_length (''%'' @ q @ ''%'')"
  shows "fst (search_route d (Given q)) =
           HttpError 500 ''Database error: LIKE or GLOB pattern too complex''"
proof -
  have "q \<noteq> []" using assms(3) by (auto simp: utf8_length_def)
  then have "1 \<le> length q" by (cases q) simp_all
  moreover have "select_like (''%'' @ q @ ''%'') (table d) = Inl ''LIKE or GLOB pattern too complex''"
    using assms(2,3) by (simp add: select_like_def)
  ultimately show ?thesis
    using assms(1)
    by (simp add: search_route_def q_param_def search_castings_def healthy_def connect_def
        execute_def Let_def respond_def database_error_def)
qed

text \<open>
  Claim C2, amended. When the store answers, the query is not empty and the pattern
  \<open>%q%\<close> is at most 50000 bytes long (or the table is empty), the search route succeeds
  with the full records of which at least one of casting, cid, years and a non-NULL
  comments matches the LIKE pattern \<open>%q%\<close>, in ascending key order, with the echoed query
  and the number of these records as count; a query matching nothing gives the empty list
  and count 0. When moreover the query holds neither \<open>%\<close>, \<open>_\<close> nor NUL and no searched
  field of the table holds a NUL, these are exactly the records in which the query appears
  as a substring, ASCII letter case ignored, of casting, years, cid or a non-NULL comments.
\<close>

theorem search_returns_matching_records:
  assumes "healthy d" and "q \<noteq> []"
    and "table d = [] \<or> utf8_length (''%'' @ q @ ''%'') \<le> 50000"
  shows "fst (search_route d (Given q)) =
           Success (JObj [(''results'',
                           JArr (map row_json (sort_key casting
                                   (filter (like_row (''%'' @ q @ ''%'')) (table d))))),
                          (''query'', JStr q),
                          (''count'', JInt (int (length (filter (like_row (''%'' @ q @ ''%''))
                                                           (table d)))))])
       \<and> sorted (map casting (sort_key casting (filter (like_row (''%'' @ q @ ''%'')) (table d))))
       \<and> ((\<forall>r \<in> set (table d). \<not> like_row (''%'' @ q @ ''%'') r) \<longrightarrow>
            fst (search_route d (Given q)) =
              Success (JObj [(''results'', JArr []), (''query'', JStr q), (''count'', JInt 0)]))
       \<and> (CHR ''%'' \<notin> set q \<and> CHR ''_'' \<notin> set q \<and> nul_free q
            \<and> (\<forall>r \<in> set (table d). nul_free_row r) \<longrightarrow>
            fst (search_route d (Given q)) =
              Success (JObj [(''results'',
                              JArr (map row_json (sort_key casting (filter (spec_match q) (table d))))),
                             (''query'', JStr q),
                             (''count'', JInt (int (length (filter (spec_match q) (table d)))))]))"
proof (intro conjI impI)
  show r: "fst (search_route d (Given q)) =
           Success (JObj [(''results'',
                           JArr (map row_json (sort_key casting
                                   (filter (like_row (''%'' @ q @ ''%'')) (table d))))),
                          (''query'', JStr q),
                          (''count'', JInt (int (length (filter (like_row (''%'' @ q @ ''%''))
                                                           (table d)))))])"
    by (rule search_route_healthy[OF assms])
  show "sorted (map casting (sort_key casting (filter (like_row (''%'' @ q @ ''%'')) (table d))))"
    by simp
  {
    assume "\<forall>r \<in> set (table d). \<not> like_row (''%'' @ q @ ''%'') r"
    then have "filter (like_row (''%'' @ q @ ''%'')) (table d) = []"
      by (simp add: filter_empty_conv)
    with r show "fst (search_route d (Given q)) =
              Success (JObj [(''results'', JArr []), (''query'', JStr q), (''count'', JInt 0)])"
      by simp
  }
  {
    assume a: "CHR ''%'' \<notin> set q \<and> CHR ''_'' \<notin> set q \<and> nul_free q
            \<and> (\<forall>r \<in> set (table d). nul_free_row r)"
    then have "filter (like_row (''%'' @ q @ ''%'')) (table d) = filter (spec_match q) (table d)"
      by (intro filter_cong refl like_row_spec) simp_all
    with r show "fst (search_route d (Given q)) =
              Success (JObj [(''results'',
                              JArr (map row_json (sort_key casting (filter (spec_match q) (table d))))),
                             (''query'', JStr q),
                             (''count'', JInt (int (length (filter (spec_match q) (table d)))))])"
      by simp
  }
qed

lemma spec_match_store3_rear:
  "filter (spec_match ''REAR'') (table store3) = [row2]"
  by (simp add: store3_def row1_def row2_def row3_def spec_match_def appears_in_def
      appears_in_null_def ascii_fold_def sublist_code prefix_code)

lemma nul_free_store3: "\<forall>r \<in> set (table store3). nul_free_row r"
  by (simp add: store3_def row1_def row2_def row3_def nul_free_row_def nul_free_def)

theorem search_returns_matching_records_witness:
  "fst (search_route store3 (Given ''REAR'')) =
     Success (JObj [(''results'', JArr [row_json row2]), (''query'', JStr ''REAR''),
                    (''count'', JInt 1)])"
proof -
  have h: "healthy store3" by (simp add: healthy_def store3_def)
  have q: "''REAR'' \<noteq> []" by simp
  have l: "table store3 = [] \<or> utf8_length (''%'' @ ''REAR'' @ ''%'') \<le> 50000"
    by (simp add: utf8_length_def)
  have w: "CHR ''%'' \<notin> set ''REAR'' \<and> CHR ''_'' \<notin> set ''REAR'' \<and> nul_free ''REAR''"
    by (simp add: nul_free_def)
  have "fst (search_route store3 (Given ''REAR'')) =
          Success (JObj [(''results'',
                          JArr (map row_json (sort_key casting
                                  (filter (spec_match ''REAR'') (table store3))))),
                         (''query'', JStr ''REAR''),
                         (''count'', JInt (int (length (filter (spec_match ''REAR'')
                                                          (table store3)))))])"
    by (rule mp[OF search_returns_matching_records[OF h q l,
            THEN conjunct2, THEN conjunct2, THEN conjunct2]])
      (simp add: w nul_free_store3)
  then show ?thesis by (simp add: spec_match_store3_rear)
qed

text \<open>Evaluations of the search at five inputs.\<close>

lemma search_underscore:
  "fst (search_route store3 (Given ''_'')) =
     Success (JObj [(''results'', JArr [row_json row2, row_json row1, row_json row3]),
                    (''query'', JStr ''_''), (''count'', JInt 3)])"
  by (simp add: search_route_def q_param_def search_castings_def connect_def execute_def
      close_def Let_def respond_def store3_def select_like_def like_row_def
      like_null_def like_def c_string_def utf8_length_def row1_def row2_def row3_def)

lemma underscore_in_no_row:
  "\<not> claimed_match ''_'' row1 \<and> \<not> claimed_match ''_'' row2 \<and> \<not> claimed_match ''_'' row3"
  by (simp add: row1_def row2_def row3_def claimed_match_def appears_ci_def letter_fold_def
      sublist_code prefix_code)

lemma search_small_accent:
  "fst (search_route store_accent (Given [CHR 0xE9])) =
     Success (JObj [(''results'', JArr []), (''query'', JStr [CHR 0xE9]), (''count'', JInt 0)])"
  by (simp add: search_route_def q_param_def search_castings_def connect_def execute_def
      close_def Let_def respond_def store_accent_def select_like_def like_row_def
      like_null_def like_def c_string_def utf8_length_def row_accent_def ascii_fold_def)

lemma accent_in_row: "claimed_match [CHR 0xE9] row_accent"
  by (simp add: row_accent_def claimed_match_def appears_ci_def letter_fold_def
      sublist_code prefix_code)

lemma search_nul_query:
  "fst (search_route store3 (Given [CHR 0x00])) =
     Success (JObj [(''results'', JArr [row_json row2, row_json row1, row_json row3]),
                    (''query'', JStr [CHR 0x00]), (''count'', JInt 3)])"
proof -
  have "filter (like_row (''%'' @ [CHR 0x00] @ ''%'')) (table store3) = [row1, row2, row3]"
    by (simp add: like_row_def like_percent_nul store3_def)
  moreover have "sort_key casting [row1, row2, row3] = [row2, row1, row3]"
    by (simp add: row1_def row2_def row3_def)
  moreover have "healthy store3" by (simp add: healthy_def store3_def)
  moreover have "table store3 = [] \<or> utf8_length (''%'' @ [CHR 0x00] @ ''%'') \<le> 50000"
    by (simp add: utf8_length_def)
  ultimately show ?thesis
    using search_route_healthy[of store3 "[CHR 0x00]"] by simp
qed

lemma nul_in_no_row:
  "\<not> claimed_match [CHR 0x00] row1 \<and> \<not> claimed_match [CHR 0x00] row2
   \<and> \<not> claimed_match [CHR 0x00] row3"
  by (simp add: row1_def row2_def row3_def claimed_match_def appears_ci_def letter_fold_def
      sublist_code prefix_code)

lemma search_behind_nul:
  "fst (search_route store_nul (Given ''cd'')) =
     Success (JObj [(''results'', JArr []), (''query'', JStr ''cd''), (''count'', JInt 0)])"
  by (simp add: search_route_def q_param_def search_castings_def connect_def execute_def
      close_def Let_def respond_def store_nul_def select_like_def like_row_def
      like_null_def like_def c_string_def utf8_length_def row_nul_def ascii_fold_def)

lemma cd_in_row_nul: "claimed_match ''cd'' row_nul"
  by (simp add: row_nul_def claimed_match_def appears_ci_def letter_fold_def
      sublist_code prefix_code)

lemma utf8_length_letters: "utf8_length (replicate n (CHR ''a'')) = n"
  by (induction n) (simp_all add: utf8_length_def)

lemma search_long_query:
  "fst (search_route store3 (Given (replicate 49999 (CHR ''a'')))) =
     HttpError 500 ''Database error: LIKE or GLOB pattern too complex''"
proof -
  have "utf8_length (''%'' @ replicate 49999 (CHR ''a'') @ ''%'') = 50001"
    using utf8_length_letters[of 49999] by (simp add: utf8_length_def)
  then have "50000 < utf8_length (''%'' @ replicate 49999 (CHR ''a'') @ ''%'')" by simp
  moreover have "healthy store3" by (simp add: healthy_def store3_def)
  moreover have "table store3 \<noteq> []" by (simp add: store3_def)
  ultimately show ?thesis by (intro search_pattern_too_long)
qed

text \<open>
  Claim C2 as stated covers every non-empty query, any letter case and any stored text.
  \<^item> The query \<open>_\<close> is bound into the pattern \<open>%_%\<close>, where it stands for any one
    character: all three rows are returned although none of them contains an underscore.
  \<^item> The query U+00E9 (small e with acute accent) does not find the row whose cid is
    U+00C9 (the capital of the same letter), which contains it when letter case is ignored.
  \<^item> The query NUL ends the pattern right after its leading \<open>%\<close>: all three rows are
    returned although none of them contains a NUL.
  \<^item> The query \<open>cd\<close> does not find the row whose cid holds \<open>cd\<close> behind a NUL.
  \<^item> A query of 49999 letters, which no row contains, is answered with the 500 of a
    failed statement, not with an empty list.
\<close>

theorem search_wildcard_counterexample:
  "fst (search_route store3 (Given ''_'')) =
     Success (JObj [(''results'', JArr [row_json row2, row_json row1, row_json row3]),
                    (''query'', JStr ''_''), (''count'', JInt 3)])
   \<and> \<not> claimed_match ''_'' row1 \<and> \<not> claimed_match ''_'' row2 \<and> \<not> claimed_match ''_'' row3
   \<and> fst (search_route store_accent (Given [CHR 0xE9])) =
       Success (JObj [(''results'', JArr []), (''query'', JStr [CHR 0xE9]), (''count'', JInt 0)])
   \<and> claimed_match [CHR 0xE9] row_accent
   \<and> fst (search_route store3 (Given [CHR 0x00])) =
       Success (JObj [(''results'', JArr [row_json row2, row_json row1, row_json row3]),
                      (''query'', JStr [CHR 0x00]), (''count'', JInt 3)])
   \<and> \<not> claimed_match [CHR 0x00] row1 \<and> \<not> claimed_match [CHR 0x00] row2
   \<and> \<not> claimed_match [CHR 0x00] row3
   \<and> fst (search_route store_nul (Given ''cd'')) =
       Success (JObj [(''results'', JArr []), (''query'', JStr ''cd''), (''count'', JInt 0)])
   \<and> claimed_match ''cd'' row_nul
   \<and> fst (search_route store3 (Given (replicate 49999 (CHR ''a'')))) =
       HttpError 500 ''Database error: LIKE or GLOB pattern too complex''"
  by (intro conjI search_underscore search_small_accent accent_in_row search_nul_query
      search_behind_nul cd_in_row_nul search_long_query
      underscore_in_no_row[THEN conjunct1] underscore_in_no_row[THEN conjunct2, THEN conjunct1]
      underscore_in_no_row[THEN conjunct2, THEN conjunct2]
      nul_in_no_row[THEN conjunct1] nul_in_no_row[THEN conjunct2, THEN conjunct1]
      nul_in_no_row[THEN conjunct2, THEN conjunct2])

section \<open>Presentation Layer\<close>

lemma str_int_1: "str_int 1 = ''1''"
  by (simp add: str_int_def str_nat.simps)

lemma str_int_20: "str_int 20 = ''20''"
  by (simp add: str_int_def str_nat.simps)

lemma py_int_1: "py_int ''1'' = Some 1"
  by (simp add: py_int_def int_strip_def int_isspace_def py_digits_def digit_of_def
      digit_count_def)

text \<open>
  Inputs that \<open>int\<close> refuses: text that is no number, a digit behind the separator
  U+001C (which \<open>int\<close> does not count as whitespace), and a number of more than
  4300 digits.
\<close>

lemma py_int_abc: "py_int ''abc'' = None"
  by (simp add: py_int_def int_strip_def int_isspace_def py_digits_def digit_of_def
      digit_count_def)

lemma py_int_separator: "py_int [CHR 0x1C, CHR ''9''] = None"
  by (simp add: py_int_def int_strip_def int_isspace_def py_digits_def digit_of_def
      digit_count_def)

lemma int_strip_ones: "int_strip (replicate n (CHR ''1'')) = replicate n (CHR ''1'')"
proof -
  have "dropWhile int_isspace (replicate n (CHR ''1'')) = replicate n (CHR ''1'')"
    by (cases n) (simp_all add: int_isspace_def)
  then show ?thesis by (simp add: int_strip_def)
qed

lemma digit_count_ones: "digit_count (replicate n (CHR ''1'')) = n"
  by (induction n) (simp_all add: digit_count_def digit_of_def)

lemma py_int_too_many_digits:
  assumes "4300 < n"
  shows "py_int (replicate n (CHR ''1'')) = None"
proof -
  from assms obtain m where m: "n = Suc m" by (cases n) auto
  have "int_strip (CHR ''1'' # replicate m (CHR ''1'')) = CHR ''1'' # replicate m (CHR ''1'')"
    using int_strip_ones[of "Suc m"] by simp
  moreover have "digit_count (CHR ''1'' # replicate m (CHR ''1'')) = Suc m"
    using digit_count_ones[of "Suc m"] by simp
  ultimately show ?thesis using assms m by (simp add: py_int_def)
qed

text \<open>A page argument that \<open>int\<close> accepts is the page that is requested.\<close>

lemma browse_parsed_page:
  "py_int s = Some v \<Longrightarrow>
   snd (browse api (Some s)) =
     [''http://localhost:8000/castings?page='' @ str_int v @ ''&limit=20'']"
  by (simp add: browse_def str_int_20 Let_def split: sum.splits)

lemma browse_first_page_url:
  "snd (browse api (Some ''1'')) = [''http://localhost:8000/castings?page=1&limit=20'']"
  by (simp add: browse_def py_int_1 str_int_1 str_int_20 Let_def split: sum.splits)

text \<open>
  Claim C10. In the browse view, when the \<open>page\<close> query argument is absent or is not
  accepted by \<open>int\<close>, the view behaves exactly as for \<open>page=1\<close>: its one request to
  the Data Service is for page 1 with the fixed limit 20, and what it renders is what that
  request's answer gives, with no error of its own.
\<close>

theorem browse_page_default:
  assumes "args_page = None \<or> (\<exists>s. args_page = Some s \<and> py_int s = None)"
  shows "browse api args_page = browse api (Some ''1'')
       \<and> snd (browse api args_page) = [''http://localhost:8000/castings?page=1&limit=20'']"
proof -
  from assms have "browse api args_page = browse api (Some ''1'')"
  proof
    assume "args_page = None"
    then show ?thesis by (simp add: browse_def py_int_1)
  next
    assume "\<exists>s. args_page = Some s \<and> py_int s = None"
    then obtain s where "args_page = Some s" "py_int s = None" by blast
    then show ?thesis by (simp add: browse_def py_int_1)
  qed
  then show ?thesis by (simp add: browse_first_page_url)
qed

theorem browse_page_default_witness:
  "browse api_listing_ok (Some ''abc'') =
     (Rendered ''browse.html''
        [(''castings'', JArr []), (''total'', JInt 0), (''page'', JInt 1), (''limit'', JInt 20),
         (''total_pages'', JInt 0)],
      [''http://localhost:8000/castings?page=1&limit=20''])
   \<and> browse api_listing_ok None = browse api_listing_ok (Some ''abc'')
   \<and> snd (browse api_listing_ok (Some [CHR 0x1C, CHR ''9''])) =
       [''http://localhost:8000/castings?page=1&limit=20'']"
proof -
  have "browse api_listing_ok (Some ''1'') =
     (Rendered ''browse.html''
        [(''castings'', JArr []), (''total'', JInt 0), (''page'', JInt 1), (''limit'', JInt 20),
         (''total_pages'', JInt 0)],
      [''http://localhost:8000/castings?page=1&limit=20''])"
    by (simp add: browse_def py_int_1 str_int_1 str_int_20 Let_def api_listing_ok_def
        render_template_splat_def)
  with browse_page_default[of "Some ''abc''" api_listing_ok]
    browse_page_default[of None api_listing_ok]
    browse_page_default[of "Some [CHR 0x1C, CHR ''9'']" api_listing_ok]
    py_int_abc py_int_separator
  show ?thesis by simp
qed

text \<open>
  The lookup form: an absent or empty field is rejected without any request; any other
  input is trimmed and sent.
\<close>

lemma index_empty_rejected:
  "form_casting = None \<or> form_casting = Some [] \<Longrightarrow>
   index api POST form_casting =
     (Rendered ''index.html'' [(''error'', JStr ''Please enter a casting number'')], [])"
  by (auto simp: index_def render_template_def)

lemma index_trims:
  "c \<noteq> [] \<Longrightarrow> snd (index api POST (Some c)) = [''http://localhost:8000/lookup/'' @ strip c]"
  by (simp add: index_def Let_def split: sum.splits)

lemma strip_spaces: "strip ''   '' = []"
  by (simp add: strip_def py_isspace_def)

text \<open>
  Claim C7, at the input where it fails. A field holding only blanks is not empty, so it
  passes the check that precedes the trimming; the view then requests the lookup of the
  empty identifier from the Data Service instead of rejecting the input itself.
\<close>

theorem index_whitespace_calls_service:
  "snd (index api POST (Some ''   '')) = [''http://localhost:8000/lookup/'']"
  by (simp add: index_def strip_spaces Let_def split: sum.splits)

text \<open>
  The export view: a 200 answer becomes the download of the same JSON value under the
  file name built from the identifier; a 404 answer and a transport failure become the two
  plain-text errors.
\<close>

lemma export_success:
  "api (''http://localhost:8000/lookup/'' @ c) = Inr \<lparr>status_code = 200, body = Inr data\<rparr> \<Longrightarrow>
   fst (export api c) = Download data (''attachment; filename=tesla_casting_'' @ c @ ''.json'') ''application/json''"
  by (simp add: export_def Let_def)

lemma export_not_found:
  "api (''http://localhost:8000/lookup/'' @ c) = Inr \<lparr>status_code = 404, body = b\<rparr> \<Longrightarrow>
   fst (export api c) = PlainText ''Error: Casting not found'' 404"
  by (simp add: export_def Let_def)

lemma export_transport_failure:
  "api (''http://localhost:8000/lookup/'' @ c) = Inl e \<Longrightarrow>
   fst (export api c) = PlainText ''Error: Unable to fetch data'' 500"
  by (simp add: export_def Let_def)

text \<open>
  Claim C4, at the input where it fails. When the Data Service answers 500 (a store
  failure), the export view answers 404 ``Casting not found'', not 500: every status other
  than 200 takes the not-found branch.
\<close>

theorem export_service_error_reported_as_not_found:
  "export api_store_error ''1050123'' =
     (PlainText ''Error: Casting not found'' 404, [''http://localhost:8000/lookup/1050123''])"
  by (simp add: export_def api_store_error_def Let_def)

text \<open>
  The two copies of the front end: three of the four views are the same function.
\<close>

lemma index_src_eq: "index_src = index"
  by (simp add: fun_eq_iff index_src_def index_def)

lemma browse_src_eq: "browse_src = browse"
  by (simp add: fun_eq_iff browse_src_def browse_def)

lemma export_src_eq: "export_src = export"
  by (simp add: fun_eq_iff export_src_def export_def)

text \<open>
  The root copy of \<open>search\<close> passes \<open>query\<close> both as a keyword and inside the unpacked
  answer, which the Data Service always builds with a \<open>query\<close> member.
\<close>

lemma search_root_crashes_on_success:
  assumes "q \<noteq> []"
    and "api (''http://localhost:8000/search?q='' @ q) = Inr \<lparr>status_code = 200, body = Inr (JObj kvs)\<rparr>"
    and "''query'' \<in> fst ` set kvs"
  shows "fst (search api POST (Some q)) = Crash TypeError"
proof -
  from assms(3) have "list_ex (\<lambda>k. k \<in> set (''template_name_or_list'' # map fst [(''query'', JStr q)]))
      (map fst kvs)"
    by (force simp: list_ex_iff)
  then have "render_template_splat ''search.html'' [(''query'', JStr q)] (JObj kvs) = Crash TypeError"
    by (simp only: render_template_splat_def json.case if_True)
  with assms(1,2) show ?thesis by (simp add: search_def Let_def)
qed

text \<open>
  Claim C8, at inputs where it fails. On a successful search answer the root copy raises
  \<open>TypeError\<close> where the copy under src/ renders the results; on a transport failure the
  root copy renders the error alone where the copy under src/ also passes the query back.
\<close>

theorem search_copies_differ:
  "fst (search api_search_ok POST (Some ''abc'')) = Crash TypeError
   \<and> fst (search_src api_search_ok POST (Some ''abc'')) =
       Rendered ''search.html'' [(''results'', JArr []), (''query'', JStr ''abc''), (''count'', JInt 0)]
   \<and> fst (search api_down POST (Some ''abc'')) =
       Rendered ''search.html'' [(''error'', JStr ''Unable to connect to API: Connection refused'')]
   \<and> fst (search_src api_down POST (Some ''abc'')) =
       Rendered ''search.html'' [(''error'', JStr ''Unable to connect to API: Connection refused''),
                                 (''query'', JStr ''abc'')]"
  by (simp add: search_def search_src_def api_search_ok_def api_down_def Let_def
      render_template_splat_def render_template_def unable_to_connect_def)

end
